theory Spec2Isabelle
  imports Main "HOL-Library.Sublist"
begin

section \<open>JavaScript strings\<close>

text \<open>
  Texts are \<open>string\<close>s, one \<open>char\<close> per code unit in the range 0 to 255.
  \<open>isWhiteSpace\<close> holds the code units of that range which \<open>String.prototype.trim\<close>
  strips: tab, line feed, vertical tab, form feed, carriage return, space and the
  no-break space.
\<close>

definition isWhiteSpace :: "char \<Rightarrow> bool" where
  "isWhiteSpace c = ((of_char c :: nat) \<in> {9, 10, 11, 12, 13, 32, 160})"

definition trim :: "string \<Rightarrow> string" where
  "trim s = rev (dropWhile isWhiteSpace (rev (dropWhile isWhiteSpace s)))"

text \<open>\<open>toLowerCase\<close> on the same range: A to Z and the accented capitals.\<close>

definition lowerChar :: "char \<Rightarrow> char" where
  "lowerChar c =
     (let n = (of_char c :: nat)
      in if (65 \<le> n \<and> n \<le> 90) \<or> (192 \<le> n \<and> n \<le> 214) \<or> (216 \<le> n \<and> n \<le> 222)
         then char_of (n + 32) else c)"

definition toLowerCase :: "string \<Rightarrow> string" where
  "toLowerCase s = map lowerChar s"

text \<open>\<open>s.includes(p)\<close> (the name alone is reserved): \<open>p\<close> occurs in \<open>s\<close> as a contiguous run.\<close>

fun str_includes :: "string \<Rightarrow> string \<Rightarrow> bool" where
  "str_includes [] p = (p = [])"
| "str_includes (c # s) p = (prefix p (c # s) \<or> str_includes s p)"

text \<open>\<open>s.startsWith(p)\<close> is \<^const>\<open>prefix\<close> \<open>p s\<close>; \<open>s.substring(0, n)\<close> is \<^const>\<open>take\<close> \<open>n s\<close>.\<close>

definition apostrophe :: string where
  "apostrophe = [CHR 0x27]"


section \<open>services/speechService.ts\<close>

record voice =
  voice_name :: string
  voice_lang :: string
  voice_default :: bool

text \<open>The module's one \<open>SpeechSynthesisUtterance\<close>, whose fields \<open>speak\<close> overwrites.\<close>

record utterance =
  u_text :: string
  u_lang :: string
  u_rate :: nat
  u_voice :: "voice option"

text \<open>
  The browser's \<open>speechSynthesis\<close> object as far as the module uses it: the
  \<open>speaking\<close> flag, the list that \<open>getVoices()\<close> returns, and the utterances handed
  to \<open>speak\<close> and not cancelled. \<open>synth.speak\<close> queues an utterance and the engine is
  speaking from then on; \<open>synth.cancel\<close> empties the queue and stops it.
  Rates are given in tenths (\<open>10\<close> is the default rate 1.0).
\<close>

record speechSynthesis =
  speaking :: bool
  getVoices :: "voice list"
  queue :: "utterance list"

definition synth_speak :: "utterance \<Rightarrow> speechSynthesis \<Rightarrow> speechSynthesis" where
  "synth_speak u sy = sy\<lparr>speaking := True, queue := queue sy @ [u]\<rparr>"

definition synth_cancel :: "speechSynthesis \<Rightarrow> speechSynthesis" where
  "synth_cancel sy = sy\<lparr>speaking := False, queue := []\<rparr>"

text \<open>
  The module-level variables \<open>synth\<close> and \<open>utterance\<close> (both \<open>null\<close> when the
  browser has no speech synthesis) and the console warnings written so far.
\<close>

record speechService =
  synth :: "speechSynthesis option"
  utterance :: "utterance option"
  warnings :: "string list"

text \<open>The module initialiser: lines 6 to 24.\<close>

definition initSpeechService :: "speechSynthesis option \<Rightarrow> speechService" where
  "initSpeechService window_speechSynthesis =
     (case window_speechSynthesis of
        Some sy \<Rightarrow>
          \<lparr>synth = Some sy,
           utterance = Some \<lparr>u_text = [], u_lang = ''en-US'', u_rate = 10, u_voice = None\<rparr>,
           warnings = []\<rparr>
      | None \<Rightarrow>
          \<lparr>synth = None, utterance = None,
           warnings = [''Speech Synthesis not supported by this browser.'']\<rparr>)"

definition selectVoice :: "voice list \<Rightarrow> string \<Rightarrow> utterance \<Rightarrow> utterance" where
  "selectVoice voices lang u =
     (if length voices > 0 \<and> u_voice u = None then
        (case find (\<lambda>v. voice_lang v = lang \<and> voice_default v) voices of
           Some defaultVoice \<Rightarrow> u\<lparr>u_voice := Some defaultVoice\<rparr>
         | None \<Rightarrow>
             (case find (\<lambda>v. prefix (take 2 lang) (voice_lang v)) voices of
                Some firstVoiceForLang \<Rightarrow> u\<lparr>u_voice := Some firstVoiceForLang\<rparr>
              | None \<Rightarrow> u))
      else u)"

definition speak :: "string \<Rightarrow> string \<Rightarrow> nat \<Rightarrow> speechService \<Rightarrow> speechService" where
  "speak text lang rate m =
     (case (synth m, utterance m) of
        (Some sy, Some u) \<Rightarrow>
          (let sy1 = (if speaking sy then synth_cancel sy else sy);
               u1 = u\<lparr>u_text := text, u_lang := lang, u_rate := rate\<rparr>;
               u2 = selectVoice (getVoices sy1) lang u1
           in m\<lparr>synth := Some (synth_speak u2 sy1), utterance := Some u2\<rparr>)
      | _ \<Rightarrow> m\<lparr>warnings := warnings m @ [''Speech synthesis not initialized or supported.'']\<rparr>)"

definition cancelSpeech :: "speechService \<Rightarrow> speechService" where
  "cancelSpeech m =
     (case synth m of
        Some sy \<Rightarrow> (if speaking sy then m\<lparr>synth := Some (synth_cancel sy)\<rparr> else m)
      | None \<Rightarrow> m)"

definition isSpeaking :: "speechService \<Rightarrow> bool" where
  "isSpeaking m = (case synth m of Some sy \<Rightarrow> speaking sy | None \<Rightarrow> False)"


section \<open>services/geminiService.ts\<close>

text \<open>A thrown value: an \<open>Error\<close> with its message, or anything else.\<close>

datatype thrown = Error string | NonError

text \<open>
  What \<open>ai.models.generateContent\<close> does for one call: it rejects with a thrown value, or
  resolves to a response whose \<open>text\<close> is a string or is not one (\<open>None\<close>).
\<close>

datatype generated = Rejected thrown | Response "string option"

definition notInitialized :: string where
  "notInitialized = ''Gemini API client is not initialized. Check API_KEY configuration.''"

definition emptyResponse :: string where
  "emptyResponse =
     ''The AI returned an empty or unexpected response. Please try a different video or prompt.''"

definition liveFallback :: string where
  "liveFallback = ''The AI didn'' @ apostrophe @ ''t provide a specific observation for this moment.''"

definition handleGeminiError :: "thrown \<Rightarrow> string" where
  "handleGeminiError error =
     (case error of
        Error message \<Rightarrow>
          (if str_includes (toLowerCase message) ''quota'' then
             ''API request failed due to quota limits. Please check your Gemini API plan or try again later.''
           else if str_includes (toLowerCase message) ''api key not valid''
                   \<or> str_includes (toLowerCase message) ''invalid api key'' then
             ''Invalid Gemini API Key. Please ensure the API_KEY environment variable is set correctly.''
           else if str_includes message ''Failed to process''
                   \<or> str_includes message ''The AI returned an empty'' then message
           else ''Failed to get response from Gemini: '' @ message)
      | NonError \<Rightarrow> ''An unknown error occurred while communicating with the Gemini API.'')"

text \<open>
  \<open>interpretPetVideo\<close>: \<open>ai\<close> says whether the client was created, \<open>readable\<close> whether
  \<open>fileToGenerativePart\<close> could read the file named \<open>fileName\<close>. \<open>Inl\<close> is the thrown value.
\<close>

definition interpretPetVideo :: "bool \<Rightarrow> string \<Rightarrow> bool \<Rightarrow> generated \<Rightarrow> thrown + string" where
  "interpretPetVideo ai fileName readable gen =
     (if \<not> ai then Inl (Error notInitialized)
      else
        (let body =
           (if \<not> readable then
              Inl (Error (''Failed to process video file: '' @ fileName
                          @ ''. Please ensure it'' @ apostrophe @ ''s a valid video format.''))
            else
              (case gen of
                 Rejected e \<Rightarrow> Inl e
               | Response None \<Rightarrow> Inl (Error emptyResponse)
               | Response (Some interpretationText) \<Rightarrow>
                   (if trim interpretationText = [] then Inl (Error emptyResponse)
                    else Inr interpretationText)))
         in case body of
              Inl error \<Rightarrow> Inl (Error (handleGeminiError error))
            | Inr t \<Rightarrow> Inr t))"

definition interpretLiveFrame :: "bool \<Rightarrow> generated \<Rightarrow> thrown + string" where
  "interpretLiveFrame ai gen =
     (if \<not> ai then Inl (Error notInitialized)
      else
        (case gen of
           Response None \<Rightarrow> Inr liveFallback
         | Response (Some interpretationText) \<Rightarrow>
             (if trim interpretationText = [] then Inr liveFallback
              else Inr interpretationText)
         | Rejected error \<Rightarrow>
             Inr (''Error from AI: ''
                  @ (case error of Error message \<Rightarrow> take 100 message
                     | NonError \<Rightarrow> ''Communication issue''))))"


section \<open>views/LiveVideoView.tsx: state\<close>

record petInfo =
  animalType :: "string option"
  breed :: "string option"
  description :: "string option"

datatype entryContext = UploadedVideo | LiveInterpretation | Identification

text \<open>
  The calls the view makes on its collaborators, in order: the props \<open>addPet\<close> (name, animal
  type, breed) and \<open>addInterpretationToPet\<close> (pet id, text, context), and the speech
  service's \<open>speak\<close>.
\<close>

datatype call =
  AddPet string "string option" "string option"
| AddInterpretationToPet string string entryContext
| Speak string

text \<open>
  What one render of the component closes over: the \<open>useState\<close> values, and
  \<open>petsRevision\<close>, the identity of the \<open>pets\<close> array of \<open>App\<close>. \<open>App\<close> builds a new
  array in every \<open>addPet\<close> and \<open>addInterpretationToPet\<close>, and with it a new
  \<open>addInterpretationToPet\<close> callback, which is a dependency of \<open>startLiveInterpretation\<close>.
\<close>

record render =
  stream :: "nat option"
  isCameraOn :: bool
  currentLiveInterpretation :: string
  interpretationLog :: "string list"
  isLoading :: bool
  isIdentifying :: bool
  error :: "string option"
  identifiedPetInfo :: "petInfo option"
  petName :: string
  currentManagingPetId :: "string option"
  isMuted :: bool
  petsRevision :: nat

datatype readyState = Live | Ended

text \<open>An \<open>interpretLiveFrame\<close> call that has not resolved, with the render its callback closed over.\<close>

record request =
  closure :: render
  frame :: string
  prompt :: string

text \<open>
  The component and what it acts on: the state of the last render (\<open>st\<close>), the two refs
  it reads live (\<open>interpretationIntervalRef.current\<close> and \<open>videoRef.current.srcObject\<close>), the
  intervals that are set (each with the render its callback closed over), the requests in
  flight, the media streams handed out with the state of their tracks, the
  \<open>getUserMedia\<close> calls that have not settled (each with the render of the click that made
  it), the \<open>identifyPetFromFrame\<close> calls that have not settled, the calls made so far, the
  speech service, and whether the Gemini client exists.
\<close>

record world =
  st :: render
  interpretationIntervalRef :: "nat option"
  srcObject :: "nat option"
  timers :: "(nat \<times> render) list"
  nextTimer :: nat
  inflight :: "(nat \<times> request) list"
  nextRequest :: nat
  streams :: "(nat \<times> readyState list) list"
  cameraRequests :: "(nat \<times> render) list"
  nextCameraRequest :: nat
  identifyRequests :: "nat list"
  nextIdentifyRequest :: nat
  calls :: "call list"
  speech :: speechService
  ai :: bool

definition LIVE_INTERPRETATION_INTERVAL :: nat where
  "LIVE_INTERPRETATION_INTERVAL = 5000"

definition PET_IDENTIFICATION_PROMPT :: string where
  "PET_IDENTIFICATION_PROMPT =
     ''Describe what this pet is doing or feeling right now. This is a live view. Be concise and friendly.''"

definition NEW_PET_PROMPT_LIVE :: string where
  "NEW_PET_PROMPT_LIVE =
     ''I'' @ apostrophe @ ''m observing this pet live. What might it be doing or feeling right now? Give a short, friendly observation.''"

text \<open>A \<open>string | null\<close> in a condition: \<open>null\<close> and the empty string are falsy.\<close>

definition truthy :: "string option \<Rightarrow> bool" where
  "truthy x = (case x of Some s \<Rightarrow> s \<noteq> [] | None \<Rightarrow> False)"

definition setState :: "(render \<Rightarrow> render) \<Rightarrow> world \<Rightarrow> world" where
  "setState f w = w\<lparr>st := f (st w)\<rparr>"

definition clearInterval :: "nat \<Rightarrow> world \<Rightarrow> world" where
  "clearInterval tid w = w\<lparr>timers := filter (\<lambda>(i, r). i \<noteq> tid) (timers w)\<rparr>"

text \<open>\<open>if (interpretationIntervalRef.current) clearInterval(interpretationIntervalRef.current)\<close>\<close>

definition clearCurrentInterval :: "world \<Rightarrow> world" where
  "clearCurrentInterval w =
     (case interpretationIntervalRef w of Some tid \<Rightarrow> clearInterval tid w | None \<Rightarrow> w)"

text \<open>The same, followed by \<open>interpretationIntervalRef.current = null\<close>.\<close>

definition clearAndForgetInterval :: "world \<Rightarrow> world" where
  "clearAndForgetInterval w =
     (case interpretationIntervalRef w of
        Some tid \<Rightarrow> (clearInterval tid w)\<lparr>interpretationIntervalRef := None\<rparr>
      | None \<Rightarrow> w)"

text \<open>The two store props, as the view sees them: a call, and a new \<open>pets\<close> array in \<open>App\<close>.\<close>

definition addPet :: "string \<Rightarrow> string option \<Rightarrow> string option \<Rightarrow> world \<Rightarrow> world" where
  "addPet name aType br w =
     (setState (\<lambda>s. s\<lparr>petsRevision := Suc (petsRevision s)\<rparr>) w)
       \<lparr>calls := calls w @ [AddPet name aType br]\<rparr>"

definition addInterpretationToPet :: "string \<Rightarrow> string \<Rightarrow> entryContext \<Rightarrow> world \<Rightarrow> world" where
  "addInterpretationToPet petId txt ctx w =
     (setState (\<lambda>s. s\<lparr>petsRevision := Suc (petsRevision s)\<rparr>) w)
       \<lparr>calls := calls w @ [AddInterpretationToPet petId txt ctx]\<rparr>"


section \<open>views/LiveVideoView.tsx: handlers\<close>

text \<open>
  Every handler takes the render \<open>rs\<close> it was created in: what it reads of the state is
  read there, what it sets goes to \<open>st\<close>. Refs are read and written in the world.
\<close>

definition startLiveInterpretation :: "render \<Rightarrow> world \<Rightarrow> world" where
  "startLiveInterpretation rs w =
     (let w1 = clearCurrentInterval w
      in if \<not> truthy (currentManagingPetId rs) \<and> identifiedPetInfo rs = None then w1
         else w1\<lparr>interpretationIntervalRef := Some (nextTimer w1),
                 timers := timers w1 @ [(nextTimer w1, rs)],
                 nextTimer := Suc (nextTimer w1)\<rparr>)"

text \<open>
  \<open>startCamera\<close>, in its two halves. The first runs on the click, up to the \<open>await\<close>:
  \<open>supported\<close> says whether \<open>navigator.mediaDevices.getUserMedia\<close> exists, and if it does
  the call is made and stays pending with the render of the click.
\<close>

definition startCamera :: "render \<Rightarrow> bool \<Rightarrow> world \<Rightarrow> world" where
  "startCamera rs supported w =
     (let w0 = setState (\<lambda>s. s\<lparr>error := None, currentLiveInterpretation := [],
                                 interpretationLog := []\<rparr>) w
      in if supported then
           w0\<lparr>cameraRequests := cameraRequests w0 @ [(nextCameraRequest w0, rs)],
              nextCameraRequest := Suc (nextCameraRequest w0)\<rparr>
         else
           setState (\<lambda>s. s\<lparr>error := Some ''Camera access is not supported by your browser.''\<rparr>) w0)"

text \<open>What a pending \<open>getUserMedia\<close> call does: it rejects, or resolves to a stream of \<open>n\<close> live tracks.\<close>

datatype cameraOutcome = Refused | Granted nat

text \<open>
  The second half runs when call \<open>cid\<close> settles, whatever has happened since the click: the
  \<open>try\<close> body after the \<open>await\<close>, or the \<open>catch\<close>.
\<close>

definition afterGetUserMedia :: "nat \<Rightarrow> cameraOutcome \<Rightarrow> world \<Rightarrow> world" where
  "afterGetUserMedia cid outcome w =
     (case map_of (cameraRequests w) cid of
        None \<Rightarrow> w
      | Some rs \<Rightarrow>
          (let w0 = w\<lparr>cameraRequests := filter (\<lambda>(i, r). i \<noteq> cid) (cameraRequests w)\<rparr>
           in case outcome of
                Refused \<Rightarrow>
                  setState (\<lambda>s. s\<lparr>error := Some ''Could not access camera. Please ensure permission is granted and no other app is using it.'',
                                   isCameraOn := False\<rparr>) w0
              | Granted n \<Rightarrow>
                  (let mediaStream = length (streams w0);
                       w1 = w0\<lparr>streams := streams w0 @ [(mediaStream, replicate n Live)],
                               srcObject := Some mediaStream\<rparr>;
                       w2 = setState (\<lambda>s. s\<lparr>stream := Some mediaStream, isCameraOn := True\<rparr>) w1
                   in if \<not> truthy (currentManagingPetId rs) then w2
                      else startLiveInterpretation rs w2)))"

definition stopTracks :: "nat \<Rightarrow> (nat \<times> readyState list) list \<Rightarrow> (nat \<times> readyState list) list" where
  "stopTracks sid ss = map (\<lambda>(i, tracks). if i = sid then (i, map (\<lambda>t. Ended) tracks) else (i, tracks)) ss"

definition stopCamera :: "render \<Rightarrow> world \<Rightarrow> world" where
  "stopCamera rs w =
     (let w1 = (case stream rs of Some sid \<Rightarrow> w\<lparr>streams := stopTracks sid (streams w)\<rparr> | None \<Rightarrow> w);
          w2 = setState (\<lambda>s. s\<lparr>stream := None, isCameraOn := False\<rparr>) w1;
          w3 = clearAndForgetInterval w2
      in w3\<lparr>speech := cancelSpeech (speech w3)\<rparr>)"

text \<open>
  \<open>canvas\<close> is what drawing the video on the canvas and encoding it yields: \<open>None\<close> when
  there is no 2d context.
\<close>

definition captureFrameAsBase64 :: "render \<Rightarrow> string option \<Rightarrow> string option" where
  "captureFrameAsBase64 rs canvas = (if isCameraOn rs then canvas else None)"

text \<open>
  \<open>handleIdentifyPet\<close>, in its two halves. The first runs on the click, up to the \<open>await\<close>:
  with a frame, the \<open>identifyPetFromFrame\<close> call is made and stays pending.
\<close>

definition handleIdentifyPet :: "render \<Rightarrow> string option \<Rightarrow> world \<Rightarrow> world" where
  "handleIdentifyPet rs canvas w =
     (let w0 = setState (\<lambda>s. s\<lparr>error := None, identifiedPetInfo := None\<rparr>) w
      in if \<not> truthy (captureFrameAsBase64 rs canvas) then
           setState (\<lambda>s. s\<lparr>error := Some ''Could not capture frame from video.''\<rparr>) w0
         else
           (setState (\<lambda>s. s\<lparr>isIdentifying := True\<rparr>) w0)
             \<lparr>identifyRequests := identifyRequests w0 @ [nextIdentifyRequest w0],
              nextIdentifyRequest := Suc (nextIdentifyRequest w0)\<rparr>)"

text \<open>
  The second half runs when call \<open>iid\<close> settles; \<open>outcome\<close> is what \<open>identifyPetFromFrame\<close>
  threw or returned.
\<close>

definition afterIdentify :: "nat \<Rightarrow> thrown + petInfo \<Rightarrow> world \<Rightarrow> world" where
  "afterIdentify iid outcome w =
     (if iid \<notin> set (identifyRequests w) then w
      else
        (let w0 = w\<lparr>identifyRequests := filter (\<lambda>i. i \<noteq> iid) (identifyRequests w)\<rparr>;
             w1 =
               (case outcome of
                  Inr result \<Rightarrow>
                    setState (\<lambda>s. s\<lparr>identifiedPetInfo := Some result,
                                     petName := (case animalType result of
                                                   Some a \<Rightarrow> if a \<noteq> [] \<and> a \<noteq> ''Unknown'' then a else []
                                                 | None \<Rightarrow> [])\<rparr>) w0
                | Inl err \<Rightarrow>
                    setState (\<lambda>s. s\<lparr>error := Some (case err of Error m \<Rightarrow> m
                                                    | NonError \<Rightarrow> ''Failed to identify pet.'')\<rparr>) w0)
         in setState (\<lambda>s. s\<lparr>isIdentifying := False\<rparr>) w1))"

text \<open>The text of the identification entry: the template literal of line 141.\<close>

definition identificationText :: "petInfo \<Rightarrow> string" where
  "identificationText info =
     ''Identified as ''
     @ (if truthy (animalType info) then (case animalType info of Some a \<Rightarrow> a | None \<Rightarrow> [])
        else ''Unknown type'')
     @ (case breed info of Some b \<Rightarrow> if b \<noteq> [] then '' ('' @ b @ '')'' else [] | None \<Rightarrow> [])
     @ ''. Description: ''
     @ (case description info of Some d \<Rightarrow> d | None \<Rightarrow> ''undefined'')"

text \<open>\<open>handleSaveIdentifiedPet\<close>; \<open>newId\<close> is the id of the pet that \<open>addPet\<close> returns.\<close>

definition handleSaveIdentifiedPet :: "render \<Rightarrow> string \<Rightarrow> world \<Rightarrow> world" where
  "handleSaveIdentifiedPet rs newId w =
     (case identifiedPetInfo rs of
        None \<Rightarrow> setState (\<lambda>s. s\<lparr>error := Some ''Please provide a name for your pet.''\<rparr>) w
      | Some info \<Rightarrow>
          if trim (petName rs) = [] then
            setState (\<lambda>s. s\<lparr>error := Some ''Please provide a name for your pet.''\<rparr>) w
          else
            (let w1 = setState (\<lambda>s. s\<lparr>error := None\<rparr>) w;
                 w2 = addPet (trim (petName rs)) (animalType info) (breed info) w1;
                 w3 = addInterpretationToPet newId (identificationText info) Identification w2;
                 w4 = setState (\<lambda>s. s\<lparr>currentManagingPetId := Some newId,
                                       identifiedPetInfo := None, petName := []\<rparr>) w3
             in startLiveInterpretation rs w4))"

definition selectExistingPet :: "render \<Rightarrow> string \<Rightarrow> world \<Rightarrow> world" where
  "selectExistingPet rs petId w =
     (let w1 = setState (\<lambda>s. s\<lparr>currentManagingPetId := Some petId, identifiedPetInfo := None,
                                 petName := [], error := None, interpretationLog := [],
                                 currentLiveInterpretation := []\<rparr>) w
      in if isCameraOn rs then startLiveInterpretation rs w1 else w1)"

text \<open>The updater given to \<open>setInterpretationLog\<close> at line 170.\<close>

definition pushLog :: "string \<Rightarrow> string list \<Rightarrow> string list" where
  "pushLog interpretationText prevLog = interpretationText # take 99 prevLog"

text \<open>
  The interval callback of \<open>startLiveInterpretation\<close>, in its two halves. \<open>intervalCallback\<close>
  is what runs when interval \<open>tid\<close> fires, up to the \<open>await\<close>: the request goes in flight.
\<close>

definition intervalCallback :: "nat \<Rightarrow> string option \<Rightarrow> world \<Rightarrow> world" where
  "intervalCallback tid canvas w =
     (case map_of (timers w) tid of
        None \<Rightarrow> w
      | Some rs \<Rightarrow>
          if \<not> isCameraOn rs \<or> srcObject w = None then clearCurrentInterval w
          else
            (case captureFrameAsBase64 rs canvas of
               None \<Rightarrow> w
             | Some fr \<Rightarrow>
                 if fr = [] then w
                 else
                   (setState (\<lambda>s. s\<lparr>isLoading := True\<rparr>) w)
                     \<lparr>inflight := inflight w
                        @ [(nextRequest w,
                            \<lparr>closure = rs, frame = fr,
                             prompt = (if truthy (currentManagingPetId rs)
                                       then PET_IDENTIFICATION_PROMPT else NEW_PET_PROMPT_LIVE)\<rparr>)],
                      nextRequest := Suc (nextRequest w)\<rparr>))"

text \<open>
  \<open>afterAwait\<close> is the rest of the callback, run when request \<open>rid\<close> settles: \<open>gen\<close> is what the
  backend did, and \<open>interpretLiveFrame\<close> turns it into the awaited value or a thrown one.
\<close>

definition afterAwait :: "nat \<Rightarrow> generated \<Rightarrow> world \<Rightarrow> world" where
  "afterAwait rid gen w =
     (case map_of (inflight w) rid of
        None \<Rightarrow> w
      | Some rq \<Rightarrow>
          (let rs = closure rq;
               w0 = w\<lparr>inflight := filter (\<lambda>(i, r). i \<noteq> rid) (inflight w)\<rparr>;
               w4 =
                 (case interpretLiveFrame (ai w0) gen of
                    Inr interpretationText \<Rightarrow>
                      (let w1 = setState (\<lambda>s. s\<lparr>currentLiveInterpretation := interpretationText,
                                                 interpretationLog :=
                                                   pushLog interpretationText (interpretationLog s)\<rparr>) w0;
                           w2 = (case currentManagingPetId rs of
                                   Some petId \<Rightarrow>
                                     if petId \<noteq> [] then
                                       addInterpretationToPet petId interpretationText LiveInterpretation w1
                                     else w1
                                 | None \<Rightarrow> w1)
                       in if \<not> isMuted rs then
                            w2\<lparr>calls := calls w2 @ [Speak interpretationText],
                               speech := speak interpretationText ''en-US'' 10 (speech w2)\<rparr>
                          else w2)
                  | Inl err \<Rightarrow>
                      (let message = (case err of Error m \<Rightarrow> m
                                      | NonError \<Rightarrow> ''Error during live interpretation.'')
                       in setState (\<lambda>s. s\<lparr>currentLiveInterpretation := message,
                                            error := Some message\<rparr>) w0))
           in setState (\<lambda>s. s\<lparr>isLoading := False\<rparr>) w4))"


section \<open>views/LiveVideoView.tsx: the effect, events and runs\<close>

text \<open>
  The effect of lines 189 to 203 runs again when one of its dependencies differs from the
  previous render: \<open>isCameraOn\<close>, \<open>currentManagingPetId\<close>, \<open>identifiedPetInfo\<close>, and
  \<open>startLiveInterpretation\<close>, which \<open>useCallback\<close> renews when one of those, \<open>isMuted\<close> or
  \<open>addInterpretationToPet\<close> differs. The clean-up of the previous run goes first.
\<close>

definition effectDeps :: "render \<Rightarrow> bool \<times> string option \<times> petInfo option \<times> bool \<times> nat" where
  "effectDeps r =
     (isCameraOn r, currentManagingPetId r, identifiedPetInfo r, isMuted r, petsRevision r)"

definition commit :: "render \<Rightarrow> world \<Rightarrow> world" where
  "commit previous w =
     (if effectDeps previous = effectDeps (st w) then w
      else
        (let w1 = clearCurrentInterval w
         in if isCameraOn (st w1)
               \<and> (truthy (currentManagingPetId (st w1)) \<or> identifiedPetInfo (st w1) \<noteq> None)
            then startLiveInterpretation (st w1) w1
            else clearAndForgetInterval w1))"

datatype event =
  StartCamera bool
| GetUserMediaSettles nat cameraOutcome
| StopCamera
| ToggleMute
| IdentifyPet "string option"
| IdentifySettles nat "thrown + petInfo"
| SetPetName string
| SaveIdentifiedPet string
| SelectExistingPet string
| DeselectPet
| IntervalFires nat "string option"
| RequestSettles nat generated
| SpeechEnds

text \<open>
  When the control of an event is rendered (lines 231 to 304); a call that settles, an
  interval that fires and the end of speech need no control.
\<close>

definition enabled :: "event \<Rightarrow> render \<Rightarrow> bool" where
  "enabled ev r =
     (case ev of
        StartCamera supported \<Rightarrow> \<not> isCameraOn r
      | GetUserMediaSettles cid outcome \<Rightarrow> True
      | StopCamera \<Rightarrow> isCameraOn r
      | ToggleMute \<Rightarrow> isCameraOn r
      | IdentifyPet canvas \<Rightarrow>
          isCameraOn r \<and> \<not> truthy (currentManagingPetId r) \<and> identifiedPetInfo r = None
          \<and> \<not> isIdentifying r
      | IdentifySettles iid outcome \<Rightarrow> True
      | SetPetName name \<Rightarrow> identifiedPetInfo r \<noteq> None \<and> \<not> truthy (currentManagingPetId r)
      | SaveIdentifiedPet newId \<Rightarrow> identifiedPetInfo r \<noteq> None \<and> \<not> truthy (currentManagingPetId r)
      | SelectExistingPet petId \<Rightarrow> \<not> isCameraOn r \<and> petId \<noteq> []
      | DeselectPet \<Rightarrow> \<not> isCameraOn r
      | IntervalFires tid canvas \<Rightarrow> True
      | RequestSettles rid gen \<Rightarrow> True
      | SpeechEnds \<Rightarrow> True)"

definition dispatch :: "event \<Rightarrow> render \<Rightarrow> world \<Rightarrow> world" where
  "dispatch ev rs w =
     (case ev of
        StartCamera supported \<Rightarrow> startCamera rs supported w
      | GetUserMediaSettles cid outcome \<Rightarrow> afterGetUserMedia cid outcome w
      | StopCamera \<Rightarrow> stopCamera rs w
      | ToggleMute \<Rightarrow> setState (\<lambda>s. s\<lparr>isMuted := \<not> isMuted rs\<rparr>) w
      | IdentifyPet canvas \<Rightarrow> handleIdentifyPet rs canvas w
      | IdentifySettles iid outcome \<Rightarrow> afterIdentify iid outcome w
      | SetPetName name \<Rightarrow> setState (\<lambda>s. s\<lparr>petName := name\<rparr>) w
      | SaveIdentifiedPet newId \<Rightarrow> handleSaveIdentifiedPet rs newId w
      | SelectExistingPet petId \<Rightarrow> selectExistingPet rs petId w
      | DeselectPet \<Rightarrow> setState (\<lambda>s. s\<lparr>currentManagingPetId := None\<rparr>) w
      | IntervalFires tid canvas \<Rightarrow> intervalCallback tid canvas w
      | RequestSettles rid gen \<Rightarrow> afterAwait rid gen w
      | SpeechEnds \<Rightarrow>
          w\<lparr>speech := (speech w)\<lparr>synth := map_option synth_cancel (synth (speech w))\<rparr>\<rparr>)"

text \<open>One event: its handler in the current render, then the next render's effect.\<close>

definition step :: "event \<Rightarrow> world \<Rightarrow> world" where
  "step ev w = (if enabled ev (st w) then commit (st w) (dispatch ev (st w) w) else w)"

definition run :: "world \<Rightarrow> event list \<Rightarrow> world" where
  "run w evs = foldl (\<lambda>w' ev. step ev w') w evs"

text \<open>The component as mounted: \<open>activePetId\<close> is the prop, the camera is off, nothing is set.\<close>

definition mount :: "string option \<Rightarrow> speechService \<Rightarrow> bool \<Rightarrow> world" where
  "mount activePetId sp aiReady =
     \<lparr>st = \<lparr>stream = None, isCameraOn = False, currentLiveInterpretation = [],
            interpretationLog = [], isLoading = False, isIdentifying = False, error = None,
            identifiedPetInfo = None, petName = [], currentManagingPetId = activePetId,
            isMuted = False, petsRevision = 0\<rparr>,
      interpretationIntervalRef = None, srcObject = None, timers = [], nextTimer = 1,
      inflight = [], nextRequest = 0, streams = [], cameraRequests = [], nextCameraRequest = 0,
      identifyRequests = [], nextIdentifyRequest = 0, calls = [], speech = sp, ai = aiReady\<rparr>"


section \<open>Invariants and scenarios\<close>

text \<open>Every interval that is set is the one \<open>interpretationIntervalRef.current\<close> holds.\<close>

definition owned :: "world \<Rightarrow> bool" where
  "owned w = (\<forall>(i, r) \<in> set (timers w). interpretationIntervalRef w = Some i)"


text \<open>The camera is off, no interval is set and no \<open>getUserMedia\<close> call is pending.\<close>

definition quiet :: "world \<Rightarrow> bool" where
  "quiet w = (\<not> isCameraOn (st w) \<and> timers w = [] \<and> cameraRequests w = [])"

text \<open>
  Events that no control of the view raises: the timer, the camera, the backend and the
  speech engine.
\<close>

definition fromEnvironment :: "event \<Rightarrow> bool" where
  "fromEnvironment ev =
     (case ev of IntervalFires tid canvas \<Rightarrow> True | RequestSettles rid gen \<Rightarrow> True
      | GetUserMediaSettles cid outcome \<Rightarrow> True | IdentifySettles iid outcome \<Rightarrow> True
      | SpeechEnds \<Rightarrow> True | _ \<Rightarrow> False)"

text \<open>The events of a cycle tick: an interval fires, a request settles, speech ends.\<close>

definition ofTick :: "event \<Rightarrow> bool" where
  "ofTick ev =
     (case ev of IntervalFires tid canvas \<Rightarrow> True | RequestSettles rid gen \<Rightarrow> True
      | SpeechEnds \<Rightarrow> True | _ \<Rightarrow> False)"

text \<open>While the camera is on the state holds a stream, and a stream held is one handed out.\<close>

definition held :: "world \<Rightarrow> bool" where
  "held w =
     ((isCameraOn (st w) \<longrightarrow> stream (st w) \<noteq> None)
      \<and> (\<forall>sid. stream (st w) = Some sid \<longrightarrow> sid \<in> fst ` set (streams w)))"

text \<open>The camera is on and every \<open>getUserMedia\<close> call has settled.\<close>

definition cameraSettled :: "world \<Rightarrow> bool" where
  "cameraSettled w = (isCameraOn (st w) \<and> cameraRequests w = [])"

text \<open>The voice of the module's utterance, and the voices the engine offers.\<close>

definition chosenVoice :: "speechService \<Rightarrow> voice option" where
  "chosenVoice m = (case utterance m of Some u \<Rightarrow> u_voice u | None \<Rightarrow> None)"

definition engineVoices :: "speechService \<Rightarrow> voice list" where
  "engineVoices m = (case synth m of Some sy \<Rightarrow> getVoices sy | None \<Rightarrow> [])"

definition silentEngine :: speechSynthesis where
  "silentEngine = \<lparr>speaking = False, getVoices = [], queue = []\<rparr>"

definition britishVoice :: voice where
  "britishVoice = \<lparr>voice_name = ''Daniel'', voice_lang = ''en-GB'', voice_default = False\<rparr>"

definition americanVoice :: voice where
  "americanVoice = \<lparr>voice_name = ''Samantha'', voice_lang = ''en-US'', voice_default = True\<rparr>"

definition frenchVoice :: voice where
  "frenchVoice = \<lparr>voice_name = ''Thomas'', voice_lang = ''fr-FR'', voice_default = True\<rparr>"

definition twoVoices :: speechService where
  "twoVoices =
     initSpeechService (Some \<lparr>speaking = False, getVoices = [americanVoice, frenchVoice], queue = []\<rparr>)"

definition britishOnly :: speechService where
  "britishOnly = initSpeechService (Some \<lparr>speaking = False, getVoices = [britishVoice], queue = []\<rparr>)"

text \<open>
  A session opened on pet \<open>1\<close>; the camera started and granted (the effect sets interval 2);
  and the first firing of that interval, whose request 0 is then in flight.
\<close>

definition trackedSession :: world where
  "trackedSession = mount (Some ''1'') (initSpeechService (Some silentEngine)) True"

definition tickInFlight :: "event list" where
  "tickInFlight =
     [StartCamera True, GetUserMediaSettles 0 (Granted 1), IntervalFires 2 (Some ''frame'')]"

definition cameraStarted :: world where
  "cameraStarted = run trackedSession [StartCamera True, GetUserMediaSettles 0 (Granted 1)]"

definition frameRequest :: request where
  "frameRequest = \<lparr>closure = st cameraStarted, frame = ''frame'', prompt = PET_IDENTIFICATION_PROMPT\<rparr>"


text \<open>
  A session without a pet, after the camera started, a dog was identified and a name typed;
  and a session where the start button was clicked twice before the camera answered, the
  first call was granted, the camera stopped, and the second call is still pending.
\<close>

definition dog :: petInfo where
  "dog = \<lparr>animalType = Some ''Dog'', breed = Some ''Unknown'', description = Some ''A dog on a sofa.''\<rparr>"

definition startedTwice :: world where
  "startedTwice =
     run trackedSession
       [StartCamera True, StartCamera True, GetUserMediaSettles 0 (Granted 1), StopCamera]"

definition awaitingConfirmation :: "string \<Rightarrow> world" where
  "awaitingConfirmation name =
     run (mount None (initSpeechService (Some silentEngine)) True)
       [StartCamera True, GetUserMediaSettles 0 (Granted 1), IdentifyPet (Some ''frame''),
        IdentifySettles 0 (Inr dog), SetPetName name]"


section \<open>Evaluation and projections\<close>

lemmas view_defs = run_def step_def mount_def enabled_def dispatch_def commit_def effectDeps_def
  startCamera_def afterGetUserMedia_def stopCamera_def setState_def truthy_def
  startLiveInterpretation_def afterIdentify_def
  clearCurrentInterval_def clearInterval_def clearAndForgetInterval_def intervalCallback_def
  captureFrameAsBase64_def afterAwait_def interpretLiveFrame_def pushLog_def addPet_def
  addInterpretationToPet_def selectExistingPet_def handleSaveIdentifiedPet_def handleIdentifyPet_def
  stopTracks_def speak_def cancelSpeech_def selectVoice_def synth_speak_def synth_cancel_def
  initSpeechService_def silentEngine_def trackedSession_def tickInFlight_def Let_def

lemmas scenario_defs = cameraStarted_def frameRequest_def dog_def awaitingConfirmation_def

lemma setState_simps [simp]:
  "st (setState f w) = f (st w)"
  "timers (setState f w) = timers w"
  "interpretationIntervalRef (setState f w) = interpretationIntervalRef w"
  "calls (setState f w) = calls w"
  "inflight (setState f w) = inflight w"
  "nextTimer (setState f w) = nextTimer w"
  "nextRequest (setState f w) = nextRequest w"
  "streams (setState f w) = streams w"
  "speech (setState f w) = speech w"
  "ai (setState f w) = ai w"
  "srcObject (setState f w) = srcObject w"
  "cameraRequests (setState f w) = cameraRequests w"
  "nextCameraRequest (setState f w) = nextCameraRequest w"
  "identifyRequests (setState f w) = identifyRequests w"
  "nextIdentifyRequest (setState f w) = nextIdentifyRequest w"
  by (simp_all add: setState_def)

lemma clearCurrentInterval_simps [simp]:
  "st (clearCurrentInterval w) = st w"
  "calls (clearCurrentInterval w) = calls w"
  "interpretationIntervalRef (clearCurrentInterval w) = interpretationIntervalRef w"
  "inflight (clearCurrentInterval w) = inflight w"
  "streams (clearCurrentInterval w) = streams w"
  "speech (clearCurrentInterval w) = speech w"
  "nextTimer (clearCurrentInterval w) = nextTimer w"
  "cameraRequests (clearCurrentInterval w) = cameraRequests w"
  by (simp_all add: clearCurrentInterval_def clearInterval_def split: option.splits)

lemma clearAndForgetInterval_simps [simp]:
  "st (clearAndForgetInterval w) = st w"
  "calls (clearAndForgetInterval w) = calls w"
  "interpretationIntervalRef (clearAndForgetInterval w) = None"
  "inflight (clearAndForgetInterval w) = inflight w"
  "streams (clearAndForgetInterval w) = streams w"
  "speech (clearAndForgetInterval w) = speech w"
  "nextTimer (clearAndForgetInterval w) = nextTimer w"
  "cameraRequests (clearAndForgetInterval w) = cameraRequests w"
  by (simp_all add: clearAndForgetInterval_def clearInterval_def split: option.splits)

lemma startLiveInterpretation_simps [simp]:
  "st (startLiveInterpretation rs w) = st w"
  "calls (startLiveInterpretation rs w) = calls w"
  "inflight (startLiveInterpretation rs w) = inflight w"
  "streams (startLiveInterpretation rs w) = streams w"
  "speech (startLiveInterpretation rs w) = speech w"
  "cameraRequests (startLiveInterpretation rs w) = cameraRequests w"
  by (simp_all add: startLiveInterpretation_def Let_def)

lemma commit_simps [simp]:
  "st (commit p w) = st w"
  "calls (commit p w) = calls w"
  "inflight (commit p w) = inflight w"
  "streams (commit p w) = streams w"
  "speech (commit p w) = speech w"
  "cameraRequests (commit p w) = cameraRequests w"
  by (simp_all add: commit_def Let_def)

lemma step_settles: "step (RequestSettles rid gen) w = commit (st w) (afterAwait rid gen w)"
  by (simp add: step_def enabled_def dispatch_def)

lemma step_fires: "step (IntervalFires tid canvas) w = commit (st w) (intervalCallback tid canvas w)"
  by (simp add: step_def enabled_def dispatch_def)

lemma timers_afterAwait [simp]: "timers (afterAwait r g w) = timers w"
  by (simp add: afterAwait_def Let_def addInterpretationToPet_def setState_def
      split: option.splits sum.splits)

lemma camera_afterAwait [simp]: "isCameraOn (st (afterAwait r g w)) = isCameraOn (st w)"
  by (simp add: afterAwait_def Let_def addInterpretationToPet_def setState_def
      split: option.splits sum.splits)

lemma stream_afterAwait [simp]: "stream (st (afterAwait r g w)) = stream (st w)"
  by (simp add: afterAwait_def Let_def addInterpretationToPet_def setState_def
      split: option.splits sum.splits)

lemma streams_afterAwait [simp]: "streams (afterAwait r g w) = streams w"
  by (simp add: afterAwait_def Let_def addInterpretationToPet_def setState_def
      split: option.splits sum.splits)

lemma cameraRequests_afterAwait [simp]: "cameraRequests (afterAwait r g w) = cameraRequests w"
  by (simp add: afterAwait_def Let_def addInterpretationToPet_def setState_def
      split: option.splits sum.splits)

lemma afterIdentify_simps [simp]:
  "timers (afterIdentify i oc w) = timers w"
  "interpretationIntervalRef (afterIdentify i oc w) = interpretationIntervalRef w"
  "isCameraOn (st (afterIdentify i oc w)) = isCameraOn (st w)"
  "stream (st (afterIdentify i oc w)) = stream (st w)"
  "interpretationLog (st (afterIdentify i oc w)) = interpretationLog (st w)"
  "streams (afterIdentify i oc w) = streams w"
  "cameraRequests (afterIdentify i oc w) = cameraRequests w"
  by (simp_all add: afterIdentify_def Let_def setState_def split: sum.splits)

lemma intervalCallback_simps [simp]:
  "isCameraOn (st (intervalCallback t c w)) = isCameraOn (st w)"
  "stream (st (intervalCallback t c w)) = stream (st w)"
  "streams (intervalCallback t c w) = streams w"
  "cameraRequests (intervalCallback t c w) = cameraRequests w"
  by (simp_all add: intervalCallback_def setState_def split: option.splits)


section \<open>One interval at most\<close>

lemma owned_setState [simp]: "owned (setState f w) = owned w"
  by (simp add: owned_def)

lemma owned_no_ref: "owned w \<Longrightarrow> interpretationIntervalRef w = None \<Longrightarrow> timers w = []"
  by (cases "timers w") (auto simp: owned_def)

lemma owned_ref:
  "owned w \<Longrightarrow> interpretationIntervalRef w = Some tid \<Longrightarrow>
     filter (\<lambda>(i, r). i \<noteq> tid) (timers w) = []"
  by (auto simp: owned_def filter_empty_conv)

lemma timers_clearCurrent: "owned w \<Longrightarrow> timers (clearCurrentInterval w) = []"
  by (cases "interpretationIntervalRef w")
     (simp_all add: clearCurrentInterval_def clearInterval_def owned_no_ref owned_ref)

lemma timers_clearForget: "owned w \<Longrightarrow> timers (clearAndForgetInterval w) = []"
  by (cases "interpretationIntervalRef w")
     (simp_all add: clearAndForgetInterval_def clearInterval_def owned_no_ref owned_ref)

lemma owned_nil: "timers w = [] \<Longrightarrow> owned w"
  by (simp add: owned_def)

lemma owned_clearCurrent: "owned w \<Longrightarrow> owned (clearCurrentInterval w)"
  by (simp add: owned_nil timers_clearCurrent)

lemma owned_start: "owned w \<Longrightarrow> owned (startLiveInterpretation rs w)"
  by (simp add: startLiveInterpretation_def Let_def timers_clearCurrent owned_nil)
     (simp add: owned_def timers_clearCurrent)

lemma owned_commit: "owned w \<Longrightarrow> owned (commit p w)"
  by (simp add: commit_def Let_def owned_start owned_nil timers_clearCurrent timers_clearForget)

lemma owned_addPet [simp]: "owned (addPet a b c w) = owned w"
  by (simp add: addPet_def owned_def)

lemma owned_addInterpretationToPet [simp]: "owned (addInterpretationToPet a b c w) = owned w"
  by (simp add: addInterpretationToPet_def owned_def)

lemma owned_startCamera: "owned w \<Longrightarrow> owned (startCamera rs supported w)"
proof -
  assume o: "owned w"
  have "owned (w'\<lparr>cameraRequests := x, nextCameraRequest := y\<rparr>) = owned w'" for w' x y
    by (simp add: owned_def)
  with o show ?thesis
    by (simp add: startCamera_def Let_def)
qed

lemma owned_afterGetUserMedia: "owned w \<Longrightarrow> owned (afterGetUserMedia c oc w)"
proof -
  assume o: "owned w"
  have a: "owned (w'\<lparr>cameraRequests := x\<rparr>) = owned w'" for w' x
    by (simp add: owned_def)
  have b: "owned (w'\<lparr>cameraRequests := x, streams := y, srcObject := z\<rparr>) = owned w'"
    for w' x y z
    by (simp add: owned_def)
  from o show ?thesis
    by (simp add: afterGetUserMedia_def Let_def a b owned_start
          split: option.splits cameraOutcome.splits)
qed

lemma owned_stopCamera: "owned w \<Longrightarrow> owned (stopCamera rs w)"
proof -
  assume o: "owned w"
  have a: "owned (w\<lparr>streams := x\<rparr>)" for x
    using o by (simp add: owned_def)
  have b: "owned (w'\<lparr>speech := x\<rparr>) = owned w'" for w' x
    by (simp add: owned_def)
  show ?thesis
    using o a by (simp add: stopCamera_def Let_def b owned_nil timers_clearForget split: option.splits)
qed

lemma owned_handleIdentifyPet: "owned w \<Longrightarrow> owned (handleIdentifyPet rs c w)"
proof -
  assume o: "owned w"
  have "owned (w'\<lparr>identifyRequests := x, nextIdentifyRequest := y\<rparr>) = owned w'" for w' x y
    by (simp add: owned_def)
  with o show ?thesis
    by (simp add: handleIdentifyPet_def Let_def)
qed

lemma owned_afterIdentify: "owned w \<Longrightarrow> owned (afterIdentify i oc w)"
  by (simp add: owned_def)

lemma owned_handleSaveIdentifiedPet: "owned w \<Longrightarrow> owned (handleSaveIdentifiedPet rs n w)"
  by (simp add: handleSaveIdentifiedPet_def Let_def owned_start split: option.splits)

lemma owned_selectExistingPet: "owned w \<Longrightarrow> owned (selectExistingPet rs n w)"
  by (simp add: selectExistingPet_def Let_def owned_start)

lemma owned_intervalCallback: "owned w \<Longrightarrow> owned (intervalCallback t c w)"
proof -
  assume o: "owned w"
  have "owned (w'\<lparr>inflight := x, nextRequest := y\<rparr>) = owned w'" for w' x y
    by (simp add: owned_def)
  with o show ?thesis
    by (simp add: intervalCallback_def owned_clearCurrent split: option.splits)
qed

lemma owned_afterAwait: "owned w \<Longrightarrow> owned (afterAwait r g w)"
proof -
  assume o: "owned w"
  have a: "owned (w'\<lparr>inflight := x\<rparr>) = owned w'" for w' x
    by (simp add: owned_def)
  have b: "owned (w'\<lparr>calls := x, speech := y\<rparr>) = owned w'" for w' x y
    by (simp add: owned_def)
  from o show ?thesis
    by (simp add: afterAwait_def Let_def a b split: option.splits sum.splits)
qed

lemma owned_dispatch: "owned w \<Longrightarrow> owned (dispatch ev rs w)"
proof -
  assume o: "owned w"
  have b: "owned (w'\<lparr>speech := y\<rparr>) = owned w'" for w' y
    by (simp add: owned_def)
  from o show ?thesis
    by (cases ev)
       (simp_all add: dispatch_def owned_startCamera owned_afterGetUserMedia owned_stopCamera
          owned_handleIdentifyPet owned_afterIdentify owned_handleSaveIdentifiedPet
          owned_selectExistingPet owned_intervalCallback owned_afterAwait b)
qed

lemma owned_step: "owned w \<Longrightarrow> owned (step ev w)"
  by (simp add: step_def owned_commit owned_dispatch)

lemma owned_run: "owned w \<Longrightarrow> owned (run w evs)"
  by (induction evs arbitrary: w) (simp_all add: run_def owned_step)

lemma owned_mount: "owned (mount a sp k)"
  by (simp add: owned_def mount_def)

lemma quiet_commit: "\<not> isCameraOn (st w) \<Longrightarrow> timers w = [] \<Longrightarrow> timers (commit p w) = []"
  by (simp add: commit_def Let_def owned_nil timers_clearCurrent timers_clearForget)

lemma commit_same [simp]: "commit (st w) w = w"
  by (simp add: commit_def)

lemma quiet_step: "quiet w \<Longrightarrow> fromEnvironment ev \<Longrightarrow> quiet (step ev w)"
proof (cases ev)
  case (IntervalFires t c)
  assume "quiet w"
  then show ?thesis
    using IntervalFires by (simp add: quiet_def step_fires intervalCallback_def)
next
  case (RequestSettles r g)
  assume "quiet w"
  then show ?thesis
    using RequestSettles by (simp add: quiet_def step_settles quiet_commit)
next
  case (GetUserMediaSettles c oc)
  assume "quiet w"
  then show ?thesis
    using GetUserMediaSettles
    by (simp add: quiet_def step_def enabled_def dispatch_def afterGetUserMedia_def)
next
  case (IdentifySettles i oc)
  assume "quiet w"
  then show ?thesis
    using IdentifySettles by (simp add: quiet_def step_def enabled_def dispatch_def quiet_commit)
next
  case SpeechEnds
  assume "quiet w"
  then show ?thesis
    using SpeechEnds by (simp add: quiet_def step_def enabled_def dispatch_def commit_def)
qed (simp_all add: fromEnvironment_def)

lemma quiet_run: "quiet w \<Longrightarrow> list_all fromEnvironment evs \<Longrightarrow> quiet (run w evs)"
  by (induction evs arbitrary: w) (simp_all add: run_def quiet_step)


section \<open>The stream held and its tracks\<close>

lemma map_of_stopTracks:
  "map_of (stopTracks sid ss) i
     = (if i = sid then map_option (map (\<lambda>t. Ended)) (map_of ss i) else map_of ss i)"
  by (induction ss) (auto simp: stopTracks_def)

lemma map_of_held: "sid \<in> fst ` set ss \<Longrightarrow> \<exists>tracks. map_of ss sid = Some tracks"
  by (cases "map_of ss sid") (simp_all add: map_of_eq_None_iff)

lemma held_commit [simp]: "held (commit p w) = held w"
  by (simp add: held_def)

lemma held_startLiveInterpretation [simp]: "held (startLiveInterpretation rs w) = held w"
  by (simp add: held_def)

lemma held_afterGetUserMedia: "held w \<Longrightarrow> held (afterGetUserMedia c oc w)"
  by (auto simp: afterGetUserMedia_def Let_def held_def setState_def
           split: option.splits cameraOutcome.splits)

lemma held_dispatch: "held w \<Longrightarrow> held (dispatch ev rs w)"
proof (cases ev)
  case (StartCamera supported)
  assume "held w"
  then show ?thesis
    using StartCamera by (simp add: dispatch_def startCamera_def Let_def held_def setState_def)
next
  case (GetUserMediaSettles c oc)
  assume "held w"
  then show ?thesis
    using GetUserMediaSettles by (simp add: dispatch_def held_afterGetUserMedia)
next
  case StopCamera
  then show ?thesis
    by (simp add: dispatch_def stopCamera_def Let_def held_def)
next
  case ToggleMute
  assume "held w"
  then show ?thesis
    using ToggleMute by (simp add: dispatch_def held_def)
next
  case (IdentifyPet c)
  assume "held w"
  then show ?thesis
    using IdentifyPet by (simp add: dispatch_def handleIdentifyPet_def Let_def held_def setState_def)
next
  case (IdentifySettles i oc)
  assume "held w"
  then show ?thesis
    using IdentifySettles by (simp add: dispatch_def held_def)
next
  case (SetPetName n)
  assume "held w"
  then show ?thesis
    using SetPetName by (simp add: dispatch_def held_def)
next
  case (SaveIdentifiedPet n)
  assume "held w"
  then show ?thesis
    using SaveIdentifiedPet
    by (simp add: dispatch_def handleSaveIdentifiedPet_def Let_def addPet_def
          addInterpretationToPet_def held_def setState_def split: option.splits)
next
  case (SelectExistingPet n)
  assume "held w"
  then show ?thesis
    using SelectExistingPet by (simp add: dispatch_def selectExistingPet_def Let_def held_def)
next
  case DeselectPet
  assume "held w"
  then show ?thesis
    using DeselectPet by (simp add: dispatch_def held_def)
next
  case (IntervalFires t c)
  assume "held w"
  then show ?thesis
    using IntervalFires by (simp add: dispatch_def held_def)
next
  case (RequestSettles r g)
  assume "held w"
  then show ?thesis
    using RequestSettles by (simp add: dispatch_def held_def)
next
  case SpeechEnds
  assume "held w"
  then show ?thesis
    using SpeechEnds by (simp add: dispatch_def held_def)
qed

lemma held_step: "held w \<Longrightarrow> held (step ev w)"
  by (simp add: step_def held_dispatch)

lemma held_run: "held w \<Longrightarrow> held (run w evs)"
  by (induction evs arbitrary: w) (simp_all add: run_def held_step)

lemma held_mount: "held (mount a sp k)"
  by (simp add: held_def mount_def)

text \<open>Starting the camera, its being granted, and any number of ticks: the camera is on and settled.\<close>

lemma cameraSettled_started:
  "cameraSettled (run (mount a sp k) [StartCamera True, GetUserMediaSettles 0 (Granted n)])"
  by (simp add: cameraSettled_def run_def step_def enabled_def dispatch_def mount_def
        startCamera_def afterGetUserMedia_def Let_def setState_def)

lemma cameraSettled_step: "cameraSettled w \<Longrightarrow> ofTick ev \<Longrightarrow> cameraSettled (step ev w)"
  by (cases ev)
     (simp_all add: cameraSettled_def ofTick_def step_def enabled_def dispatch_def)

lemma cameraSettled_run: "cameraSettled w \<Longrightarrow> list_all ofTick evs \<Longrightarrow> cameraSettled (run w evs)"
  by (induction evs arbitrary: w) (simp_all add: run_def cameraSettled_step)

lemma run_append: "run w (xs @ ys) = run (run w xs) ys"
  by (simp add: run_def)

lemma cancelSpeech_silent: "\<not> isSpeaking (cancelSpeech m)"
  by (simp add: isSpeaking_def cancelSpeech_def synth_cancel_def split: option.splits)


section \<open>The log stays within its capacity\<close>









section \<open>Facts of the scenarios\<close>

lemma handleGeminiError_empty: "handleGeminiError (Error emptyResponse) = emptyResponse"
  by (simp add: handleGeminiError_def emptyResponse_def toLowerCase_def lowerChar_def)

lemma frameRequest_inflight:
  "map_of (inflight (run trackedSession tickInFlight)) 0 = Some frameRequest
   \<and> currentManagingPetId (closure frameRequest) = Some ''1''
   \<and> \<not> isMuted (closure frameRequest)
   \<and> ai (run trackedSession tickInFlight)
   \<and> calls (run trackedSession tickInFlight) = []"
  by (simp add: scenario_defs view_defs)

lemma second_firing:
  "map_of (timers (run trackedSession tickInFlight)) 2 = Some (st cameraStarted)
   \<and> isCameraOn (st cameraStarted)
   \<and> srcObject (run trackedSession tickInFlight) \<noteq> None
   \<and> inflight (run trackedSession tickInFlight) = [(0, frameRequest)]
   \<and> nextRequest (run trackedSession tickInFlight) = 1
   \<and> truthy (currentManagingPetId (st cameraStarted))"
  by (simp add: scenario_defs view_defs)

lemma switched_inflight:
  "map_of (inflight (run trackedSession (tickInFlight @ [StopCamera, SelectExistingPet ''2'']))) 0
     = Some frameRequest
   \<and> ai (run trackedSession (tickInFlight @ [StopCamera, SelectExistingPet ''2'']))
   \<and> \<not> isCameraOn (st (run trackedSession (tickInFlight @ [StopCamera, SelectExistingPet ''2''])))
   \<and> currentManagingPetId (st (run trackedSession (tickInFlight @ [StopCamera, SelectExistingPet ''2''])))
       = Some ''2''
   \<and> calls (run trackedSession (tickInFlight @ [StopCamera, SelectExistingPet ''2''])) = []
   \<and> currentManagingPetId (closure frameRequest) = Some ''1''
   \<and> \<not> isMuted (closure frameRequest)
   \<and> trim ''Wagging its tail'' \<noteq> []"
  by (simp add: scenario_defs view_defs trim_def isWhiteSpace_def)

lemma tracking_before_stop:
  "isCameraOn (st (run trackedSession tickInFlight))
   \<and> cameraRequests (run trackedSession tickInFlight) = []
   \<and> stream (st (run trackedSession tickInFlight)) = Some 0
   \<and> streams (run trackedSession tickInFlight) = [(0, [Live])]
   \<and> timers (run trackedSession tickInFlight) = [(2, st cameraStarted)]
   \<and> streams (step StopCamera (run trackedSession tickInFlight)) = [(0, [Ended])]"
  by (simp add: scenario_defs view_defs)

text \<open>
  Where the camera is not settled: the start button clicked twice before the camera
  answers. The first call is granted and the camera stopped; when the second call is then
  granted, the camera is on again and an interval is set.
\<close>

lemma pending_start_outlives_stop:
  "\<not> isCameraOn (st startedTwice) \<and> timers startedTwice = []
   \<and> map fst (cameraRequests startedTwice) = [1]
   \<and> isCameraOn (st (step (GetUserMediaSettles 1 (Granted 1)) startedTwice))
   \<and> map fst (timers (step (GetUserMediaSettles 1 (Granted 1)) startedTwice)) = [4]"
  by (simp add: startedTwice_def view_defs)





lemma awaiting_blank:
  "identifiedPetInfo (st (awaitingConfirmation ''   '')) = Some dog
   \<and> \<not> truthy (currentManagingPetId (st (awaitingConfirmation ''   '')))
   \<and> trim (petName (st (awaitingConfirmation ''   ''))) = []"
  by (simp add: scenario_defs view_defs trim_def isWhiteSpace_def)

text \<open>
  The one failure of \<open>interpretLiveFrame\<close> that reaches the callback's \<open>catch\<close>: without a
  client it throws before any request, and the tick shows the message, sets the error,
  stores nothing and says nothing.
\<close>

lemma uninitialised_client_tick:
  assumes "map_of (inflight w) rid = Some rq" and "\<not> ai w"
  shows "currentLiveInterpretation (st (step (RequestSettles rid gen) w)) = notInitialized
       \<and> error (st (step (RequestSettles rid gen) w)) = Some notInitialized
       \<and> calls (step (RequestSettles rid gen) w) = calls w"
  using assms
  by (simp add: step_settles afterAwait_def Let_def interpretLiveFrame_def setState_def)


section \<open>Claims about the interpretation cycle\<close>

text \<open>
  C1, as far as it holds. A tick started in Tracking with mute off, whose backend call
  fails: \<open>interpretLiveFrame\<close> does not throw but returns the marker \<open>Error from AI: \<close>
  followed by at most 100 characters of the error message; that marker becomes the
  most-recent text, and the camera stays on with the same pet tracked.
\<close>

theorem backend_failure_shows_marker:
  assumes "map_of (inflight w) rid = Some rq"
    and "currentManagingPetId (closure rq) = Some petId" and "petId \<noteq> []"
    and "\<not> isMuted (closure rq)" and "ai w"
    and "marker = ''Error from AI: '' @ (case e of Error message \<Rightarrow> take 100 message
                                         | NonError \<Rightarrow> ''Communication issue'')"
    and "w' = step (RequestSettles rid (Rejected e)) w"
  shows "interpretLiveFrame (ai w) (Rejected e) = Inr marker
       \<and> currentLiveInterpretation (st w') = marker
       \<and> length marker \<le> 115
       \<and> isCameraOn (st w') = isCameraOn (st w)
       \<and> currentManagingPetId (st w') = currentManagingPetId (st w)"
proof -
  have m: "interpretLiveFrame True (Rejected e) = Inr marker"
    using assms(6) by (simp add: interpretLiveFrame_def)
  have len: "length marker \<le> 115"
    using assms(6) by (cases e) simp_all
  have "st w' = st (afterAwait rid (Rejected e) w)"
    using assms(7) by (simp add: step_settles)
  then show ?thesis
    using assms(1-5) m len
    by (simp add: afterAwait_def Let_def addInterpretationToPet_def setState_def)
qed

theorem backend_failure_shows_marker_witness:
  "map_of (inflight (run trackedSession tickInFlight)) 0 = Some frameRequest
   \<and> currentManagingPetId (closure frameRequest) = Some ''1''
   \<and> \<not> isMuted (closure frameRequest)
   \<and> ai (run trackedSession tickInFlight)
   \<and> currentLiveInterpretation
        (st (step (RequestSettles 0 (Rejected (Error ''Request timed out'')))
               (run trackedSession tickInFlight)))
       = ''Error from AI: Request timed out''"
  using backend_failure_shows_marker [of "run trackedSession tickInFlight" 0 frameRequest
      "''1''" "''Error from AI: Request timed out''" "Error ''Request timed out''"
      "step (RequestSettles 0 (Rejected (Error ''Request timed out''))) (run trackedSession tickInFlight)"]
    frameRequest_inflight
  by simp

text \<open>
  C1 as stated fails: pet \<open>1\<close> is tracked, the camera is on, mute is off and nothing has been
  stored or said; the request of the first tick then times out. The marker comes back as
  the awaited text, so the callback goes on as for any observation: the marker is appended
  to the pet and spoken.
\<close>

theorem timeout_is_stored_and_spoken:
  "isCameraOn (st (run trackedSession tickInFlight))
   \<and> currentManagingPetId (st (run trackedSession tickInFlight)) = Some ''1''
   \<and> \<not> isMuted (st (run trackedSession tickInFlight))
   \<and> calls (run trackedSession tickInFlight) = []
   \<and> calls (run trackedSession
              (tickInFlight @ [RequestSettles 0 (Rejected (Error ''Request timed out''))]))
       = [AddInterpretationToPet ''1'' ''Error from AI: Request timed out'' LiveInterpretation,
          Speak ''Error from AI: Request timed out'']"
  by (simp add: view_defs)

text \<open>
  C2, as the code has it. No tick is skipped for a request in flight: whenever an interval
  fires whose render has the camera on, with a video source and a non-empty frame, one
  more request goes in flight behind those already there, whatever their number and
  whatever \<open>isLoading\<close> says. \<open>isLoading\<close> is set by such a firing and cleared when any
  request settles, and no firing reads it.
\<close>

theorem every_firing_sends_a_request:
  assumes "map_of (timers w) tid = Some rs" and "isCameraOn rs" and "srcObject w \<noteq> None"
    and "fr \<noteq> []"
  shows "inflight (step (IntervalFires tid (Some fr)) w) =
           inflight w @ [(nextRequest w,
              \<lparr>closure = rs, frame = fr,
               prompt = (if truthy (currentManagingPetId rs) then PET_IDENTIFICATION_PROMPT
                         else NEW_PET_PROMPT_LIVE)\<rparr>)]
       \<and> isLoading (st (step (IntervalFires tid (Some fr)) w))
       \<and> (\<forall>rid gen. map_of (inflight w) rid \<noteq> None
            \<longrightarrow> \<not> isLoading (st (step (RequestSettles rid gen) w)))"
proof -
  have fired: "inflight (step (IntervalFires tid (Some fr)) w) =
           inflight w @ [(nextRequest w,
              \<lparr>closure = rs, frame = fr,
               prompt = (if truthy (currentManagingPetId rs) then PET_IDENTIFICATION_PROMPT
                         else NEW_PET_PROMPT_LIVE)\<rparr>)]"
    and loading: "isLoading (st (step (IntervalFires tid (Some fr)) w))"
    using assms
    by (auto simp: step_fires intervalCallback_def captureFrameAsBase64_def setState_def)
  have cleared: "\<not> isLoading (st (step (RequestSettles rid gen) w))"
    if "map_of (inflight w) rid \<noteq> None" for rid gen
    using that by (auto simp: step_settles afterAwait_def Let_def setState_def)
  show ?thesis
    using fired loading cleared by blast
qed

theorem every_firing_sends_a_request_witness:
  "map_of (timers (run trackedSession tickInFlight)) 2 = Some (st cameraStarted)
   \<and> isCameraOn (st cameraStarted)
   \<and> srcObject (run trackedSession tickInFlight) \<noteq> None
   \<and> inflight (run trackedSession tickInFlight) = [(0, frameRequest)]
   \<and> inflight (step (IntervalFires 2 (Some ''frame'')) (run trackedSession tickInFlight))
       = [(0, frameRequest), (1, frameRequest)]"
  using every_firing_sends_a_request [of "run trackedSession tickInFlight" 2 "st cameraStarted"
      "''frame''"]
    second_firing
  by (simp add: frameRequest_def)

text \<open>
  C2 as stated fails: request 0 is in flight and marked as loading when interval 2 fires
  again, and request 1 joins it.
\<close>

theorem second_tick_overlaps_first:
  "map fst (inflight (run trackedSession tickInFlight)) = [0]
   \<and> isLoading (st (run trackedSession tickInFlight))
   \<and> map fst (inflight (run trackedSession (tickInFlight @ [IntervalFires 2 (Some ''frame'')])))
       = [0, 1]"
  by (simp add: view_defs)

text \<open>
  C3, as the code has it. There is no generation counter. A request that settles with a
  non-blank text is applied whatever happened since it was sent: the text becomes the
  most-recent text and is pushed on the log of the session as it is now, it is appended to
  the pet that was tracked in the render that set the interval (never to one bound later),
  and it is spoken unless that render was muted.
\<close>

theorem settled_request_is_applied:
  assumes "map_of (inflight w) rid = Some rq" and "ai w" and "trim txt \<noteq> []"
    and "w' = step (RequestSettles rid (Response (Some txt))) w"
  shows "currentLiveInterpretation (st w') = txt
       \<and> interpretationLog (st w') = pushLog txt (interpretationLog (st w))
       \<and> calls w' = calls w
           @ (if truthy (currentManagingPetId (closure rq))
              then [AddInterpretationToPet
                      (case currentManagingPetId (closure rq) of Some p \<Rightarrow> p | None \<Rightarrow> [])
                      txt LiveInterpretation]
              else [])
           @ (if isMuted (closure rq) then [] else [Speak txt])"
proof -
  have m: "interpretLiveFrame True (Response (Some txt)) = Inr txt"
    using assms(3) by (simp add: interpretLiveFrame_def)
  have "st w' = st (afterAwait rid (Response (Some txt)) w)"
       "calls w' = calls (afterAwait rid (Response (Some txt)) w)"
    using assms(4) by (simp_all add: step_settles)
  then show ?thesis
    using assms(1-2) m
    by (simp add: afterAwait_def Let_def addInterpretationToPet_def setState_def truthy_def
             split: option.splits)
qed

theorem settled_request_is_applied_witness:
  "map_of (inflight (run trackedSession (tickInFlight @ [StopCamera, SelectExistingPet ''2'']))) 0
     = Some frameRequest
   \<and> ai (run trackedSession (tickInFlight @ [StopCamera, SelectExistingPet ''2'']))
   \<and> trim ''Wagging its tail'' \<noteq> []
   \<and> currentManagingPetId (st (run trackedSession (tickInFlight @ [StopCamera, SelectExistingPet ''2''])))
       = Some ''2''
   \<and> calls (step (RequestSettles 0 (Response (Some ''Wagging its tail'')))
               (run trackedSession (tickInFlight @ [StopCamera, SelectExistingPet ''2''])))
       = [AddInterpretationToPet ''1'' ''Wagging its tail'' LiveInterpretation,
          Speak ''Wagging its tail'']"
  using settled_request_is_applied [of
      "run trackedSession (tickInFlight @ [StopCamera, SelectExistingPet ''2''])"
      0 frameRequest "''Wagging its tail''"
      "step (RequestSettles 0 (Response (Some ''Wagging its tail'')))
         (run trackedSession (tickInFlight @ [StopCamera, SelectExistingPet ''2'']))"]
    switched_inflight
  by (simp add: truthy_def)

text \<open>
  C3 as stated fails: with request 0 in flight the camera is stopped and pet \<open>2\<close> is
  selected, which empties the text and the log; the request then settles, and its text is
  shown and logged in the session of pet \<open>2\<close>, appended to pet \<open>1\<close> and spoken.
\<close>

theorem stale_result_is_applied:
  "map fst (inflight (run trackedSession tickInFlight)) = [0]
   \<and> \<not> isCameraOn (st (run trackedSession (tickInFlight @ [StopCamera, SelectExistingPet ''2''])))
   \<and> currentLiveInterpretation
        (st (run trackedSession (tickInFlight @ [StopCamera, SelectExistingPet ''2'']))) = []
   \<and> currentManagingPetId (st (run trackedSession (tickInFlight @
        [StopCamera, SelectExistingPet ''2'',
         RequestSettles 0 (Response (Some ''Wagging its tail''))]))) = Some ''2''
   \<and> currentLiveInterpretation (st (run trackedSession (tickInFlight @
        [StopCamera, SelectExistingPet ''2'',
         RequestSettles 0 (Response (Some ''Wagging its tail''))]))) = ''Wagging its tail''
   \<and> interpretationLog (st (run trackedSession (tickInFlight @
        [StopCamera, SelectExistingPet ''2'',
         RequestSettles 0 (Response (Some ''Wagging its tail''))]))) = [''Wagging its tail'']
   \<and> calls (run trackedSession (tickInFlight @
        [StopCamera, SelectExistingPet ''2'',
         RequestSettles 0 (Response (Some ''Wagging its tail''))]))
       = [AddInterpretationToPet ''1'' ''Wagging its tail'' LiveInterpretation,
          Speak ''Wagging its tail'']"
  by (simp add: view_defs trim_def isWhiteSpace_def)

text \<open>
  C4. From every state reached from mounting in which the camera is on, \<open>stopCamera\<close>
  itself clears the interval and forgets it, ends every track of the stream the state
  holds and of no other, and silences the speech engine; after the render that follows,
  no interval is set or referenced, the camera is off and the stream forgotten, and a
  firing of any interval does nothing. Where no \<open>getUserMedia\<close> call is pending, no interval
  is set again by whatever the timer, the camera, the backend or the speech engine do
  later; and starting the camera, its being granted and any number of tick events do leave
  the camera on with no such call pending.
\<close>

theorem stopCamera_leaves_nothing_running:
  assumes "w = run (mount activePetId sp aiReady) evs" and "isCameraOn (st w)"
    and "w' = step StopCamera w"
  shows "(list_all ofTick ticks \<longrightarrow>
            cameraSettled (run (mount activePetId sp aiReady)
              ([StartCamera True, GetUserMediaSettles 0 (Granted n)] @ ticks)))
       \<and> timers (stopCamera (st w) w) = []
       \<and> interpretationIntervalRef (stopCamera (st w) w) = None
       \<and> \<not> isSpeaking (speech (stopCamera (st w) w))
       \<and> (\<exists>sid tracks. stream (st w) = Some sid \<and> map_of (streams w) sid = Some tracks
            \<and> map_of (streams (stopCamera (st w) w)) sid = Some (map (\<lambda>t. Ended) tracks)
            \<and> (\<forall>i. i \<noteq> sid \<longrightarrow> map_of (streams (stopCamera (st w) w)) i = map_of (streams w) i))
       \<and> streams w' = streams (stopCamera (st w) w)
       \<and> timers w' = [] \<and> interpretationIntervalRef w' = None
       \<and> \<not> isCameraOn (st w') \<and> stream (st w') = None
       \<and> \<not> isSpeaking (speech w')
       \<and> (\<forall>tid canvas. step (IntervalFires tid canvas) w' = w')
       \<and> (cameraRequests w = [] \<longrightarrow>
            (\<forall>later. list_all fromEnvironment later \<longrightarrow> timers (run w' later) = []))"
proof -
  let ?s = "stopCamera (st w) w"
  have on: "isCameraOn (st w)"
    using assms(2) .
  have o: "owned w"
    using assms(1) owned_run owned_mount by blast
  have h: "held w"
    using assms(1) held_run held_mount by blast
  have claim: "cameraSettled (run (mount activePetId sp aiReady)
              ([StartCamera True, GetUserMediaSettles 0 (Granted n)] @ ticks))"
    if "list_all ofTick ticks"
  proof -
    have "cameraSettled (run (run (mount activePetId sp aiReady)
              [StartCamera True, GetUserMediaSettles 0 (Granted n)]) ticks)"
      using cameraSettled_run [OF cameraSettled_started that] .
    then show ?thesis
      by (simp only: run_append)
  qed
  have w': "w' = commit (st w) ?s"
    using on assms(3) by (simp add: step_def enabled_def dispatch_def)
  have sts: "st ?s = (st w)\<lparr>stream := None, isCameraOn := False\<rparr>"
    by (simp add: stopCamera_def Let_def setState_def split: option.splits)
  have "owned (case stream (st w) of None \<Rightarrow> w
               | Some sid \<Rightarrow> w\<lparr>streams := stopTracks sid (streams w)\<rparr>)"
    using o by (simp add: owned_def split: option.splits)
  then have ts: "timers ?s = []" and rs: "interpretationIntervalRef ?s = None"
    by (simp_all add: stopCamera_def Let_def timers_clearForget)
  have sps: "\<not> isSpeaking (speech ?s)"
    by (simp add: stopCamera_def Let_def cancelSpeech_silent)
  have "stream (st w) \<noteq> None"
    using h on by (simp add: held_def)
  then obtain sid where sid: "stream (st w) = Some sid"
    by (cases "stream (st w)") simp_all
  have mem: "sid \<in> fst ` set (streams w)"
    using h sid by (simp add: held_def)
  obtain tracks where tracks: "map_of (streams w) sid = Some tracks"
    using map_of_held [OF mem] by (rule exE)
  have ss: "streams ?s = stopTracks sid (streams w)"
    using sid by (simp add: stopCamera_def Let_def)
  have tr: "map_of (streams ?s) sid = Some (map (\<lambda>t. Ended) tracks)"
    and others: "\<forall>i. i \<noteq> sid \<longrightarrow> map_of (streams ?s) i = map_of (streams w) i"
    using tracks by (simp_all add: ss map_of_stopTracks)
  have cs: "cameraRequests ?s = cameraRequests w"
    by (simp add: stopCamera_def Let_def split: option.splits)
  have deps: "effectDeps (st w) \<noteq> effectDeps (st ?s)"
    using on by (simp add: sts effectDeps_def)
  have go: "w' = clearAndForgetInterval (clearCurrentInterval ?s)"
    using deps by (simp add: w' commit_def Let_def sts)
  have t': "timers w' = []" and r': "interpretationIntervalRef w' = None"
    using ts by (simp_all add: go owned_nil timers_clearForget timers_clearCurrent)
  have st': "st w' = (st w)\<lparr>stream := None, isCameraOn := False\<rparr>"
    by (simp add: w' sts)
  have ss': "streams w' = streams ?s" and sp: "\<not> isSpeaking (speech w')"
    using sps by (simp_all add: w')
  have c': "cameraRequests w' = cameraRequests w"
    using cs by (simp add: w')
  have fire: "step (IntervalFires tid canvas) w' = w'" for tid canvas
    by (simp add: step_fires intervalCallback_def t')
  have later: "timers (run w' later) = []"
    if "cameraRequests w = []" "list_all fromEnvironment later" for later
  proof -
    have q: "quiet w'"
      using that(1) by (simp add: quiet_def t' st' c')
    show ?thesis
      using quiet_run [OF q that(2)] by (simp add: quiet_def)
  qed
  have held_stream: "\<exists>sid tracks. stream (st w) = Some sid \<and> map_of (streams w) sid = Some tracks
            \<and> map_of (streams ?s) sid = Some (map (\<lambda>t. Ended) tracks)
            \<and> (\<forall>i. i \<noteq> sid \<longrightarrow> map_of (streams ?s) i = map_of (streams w) i)"
    using sid tracks tr others by blast
  show ?thesis
    using claim ts rs sps held_stream ss' t' r' st' sp fire later by simp
qed

theorem stopCamera_leaves_nothing_running_witness:
  "cameraSettled (run trackedSession tickInFlight)
   \<and> timers (run trackedSession tickInFlight) = [(2, st cameraStarted)]
   \<and> streams (run trackedSession tickInFlight) = [(0, [Live])]
   \<and> timers (stopCamera (st (run trackedSession tickInFlight)) (run trackedSession tickInFlight)) = []
   \<and> timers (step StopCamera (run trackedSession tickInFlight)) = []
   \<and> streams (step StopCamera (run trackedSession tickInFlight)) = [(0, [Ended])]
   \<and> step (IntervalFires 2 (Some ''frame'')) (step StopCamera (run trackedSession tickInFlight))
       = step StopCamera (run trackedSession tickInFlight)
   \<and> timers (run (step StopCamera (run trackedSession tickInFlight))
               [RequestSettles 0 (Response (Some ''Wagging its tail'')),
                GetUserMediaSettles 1 (Granted 1), IntervalFires 3 (Some ''frame'')]) = []"
  using stopCamera_leaves_nothing_running [of "run trackedSession tickInFlight" "Some ''1''"
      "initSpeechService (Some silentEngine)" True tickInFlight
      "step StopCamera (run trackedSession tickInFlight)" "[IntervalFires 2 (Some ''frame'')]" 1]
    tracking_before_stop
  by (simp add: trackedSession_def cameraSettled_def tickInFlight_def fromEnvironment_def)




section \<open>Claims about confirming an identification\<close>



text \<open>
  C7. With an identification pending and no pet tracked, confirming with a name that is
  empty or all white space changes nothing but the error, which becomes the request for a
  name: no call is made on the store, the pending identification stays, no interval is
  touched.
\<close>

theorem blank_name_is_refused:
  assumes "identifiedPetInfo (st w) = Some info" and "\<not> truthy (currentManagingPetId (st w))"
    and "trim (petName (st w)) = []"
  shows "step (SaveIdentifiedPet newId) w
           = w\<lparr>st := (st w)\<lparr>error := Some ''Please provide a name for your pet.''\<rparr>\<rparr>"
  using assms
  by (simp add: step_def enabled_def dispatch_def handleSaveIdentifiedPet_def setState_def
        commit_def effectDeps_def)

theorem blank_name_is_refused_witness:
  "identifiedPetInfo (st (awaitingConfirmation ''   '')) = Some dog
   \<and> \<not> truthy (currentManagingPetId (st (awaitingConfirmation ''   '')))
   \<and> trim (petName (st (awaitingConfirmation ''   ''))) = []
   \<and> calls (step (SaveIdentifiedPet ''1718000000000'') (awaitingConfirmation ''   ''))
       = calls (awaitingConfirmation ''   '')
   \<and> identifiedPetInfo (st (step (SaveIdentifiedPet ''1718000000000'') (awaitingConfirmation ''   '')))
       = Some dog
   \<and> error (st (step (SaveIdentifiedPet ''1718000000000'') (awaitingConfirmation ''   '')))
       = Some ''Please provide a name for your pet.''"
  using blank_name_is_refused [of "awaitingConfirmation ''   ''" dog "''1718000000000''"]
    awaiting_blank
  by simp


section \<open>Claims about the services\<close>

text \<open>
  C8. With the client created and a response whose text is not a string, is empty or is
  all white space, \<open>interpretLiveFrame\<close> returns, and what it returns is the sentence
  \<open>The AI didn't provide a specific observation for this moment.\<close>, which is not blank;
  \<open>interpretPetVideo\<close> on a readable file throws, and what it throws is an error with the
  message \<open>The AI returned an empty or unexpected response. Please try a different video or
  prompt.\<close>
\<close>

theorem empty_text_live_vs_video:
  "t = None \<or> (\<exists>s. t = Some s \<and> trim s = []) \<Longrightarrow>
     interpretLiveFrame True (Response t)
       = Inr (''The AI didn'' @ [CHR 0x27] @ ''t provide a specific observation for this moment.'')
     \<and> interpretLiveFrame True (Response t) = Inr liveFallback
     \<and> trim liveFallback \<noteq> []
     \<and> interpretPetVideo True fileName True (Response t)
       = Inl (Error ''The AI returned an empty or unexpected response. Please try a different video or prompt.'')
     \<and> interpretPetVideo True fileName True (Response t) = Inl (Error emptyResponse)"
proof -
  assume t: "t = None \<or> (\<exists>s. t = Some s \<and> trim s = [])"
  have live: "interpretLiveFrame True (Response t) = Inr liveFallback"
    using t by (auto simp: interpretLiveFrame_def)
  have video: "interpretPetVideo True fileName True (Response t) = Inl (Error emptyResponse)"
    using t by (auto simp: interpretPetVideo_def handleGeminiError_empty)
  have lit: "liveFallback
       = ''The AI didn'' @ [CHR 0x27] @ ''t provide a specific observation for this moment.''"
    by (simp add: liveFallback_def apostrophe_def)
  have nonblank: "trim liveFallback \<noteq> []"
    by (simp add: lit trim_def isWhiteSpace_def)
  show ?thesis
    using live video nonblank by (simp add: lit emptyResponse_def)
qed

theorem empty_text_live_vs_video_witness:
  "trim ''  '' = []
   \<and> interpretLiveFrame True (Response (Some ''  ''))
       = Inr (''The AI didn'' @ [CHR 0x27] @ ''t provide a specific observation for this moment.'')
   \<and> interpretPetVideo True ''clip.mp4'' True (Response (Some ''  ''))
       = Inl (Error ''The AI returned an empty or unexpected response. Please try a different video or prompt.'')"
  using empty_text_live_vs_video [of "Some ''  ''" "''clip.mp4''"]
  by (simp add: trim_def isWhiteSpace_def)

text \<open>
  C9, as the code has it. With the engine available, a voice is selected only while the
  module's utterance has none: then the first voice of the requested locale that is flagged
  default is taken, else the first voice whose locale starts with the first two characters
  of the requested one, else none (the engine's own default). A voice once selected is kept
  by every later call, whatever locale it requests. No call fails.
\<close>

theorem voice_selection:
  assumes "synth m = Some sy" and "utterance m = Some u"
  shows "chosenVoice (speak text lang rate m) =
           (case u_voice u of
              Some kept \<Rightarrow> Some kept
            | None \<Rightarrow>
               (case find (\<lambda>v. voice_lang v = lang \<and> voice_default v) (getVoices sy) of
                  Some v \<Rightarrow> Some v
                | None \<Rightarrow> find (\<lambda>v. prefix (take 2 lang) (voice_lang v)) (getVoices sy)))"
  using assms
  by (cases "getVoices sy")
     (auto simp: chosenVoice_def speak_def selectVoice_def synth_cancel_def synth_speak_def Let_def
           split: option.splits)

theorem voice_selection_witness:
  "synth britishOnly = Some \<lparr>speaking = False, getVoices = [britishVoice], queue = []\<rparr>
   \<and> chosenVoice (speak ''Hello'' ''en-US'' 10 britishOnly) = Some britishVoice"
  using voice_selection [of britishOnly "\<lparr>speaking = False, getVoices = [britishVoice], queue = []\<rparr>"
      "\<lparr>u_text = [], u_lang = ''en-US'', u_rate = 10, u_voice = None\<rparr>" "''Hello''" "''en-US''" 10]
  by (simp add: britishOnly_def initSpeechService_def britishVoice_def)

text \<open>
  C9 as stated fails: after a call for \<open>en-US\<close> has selected the American voice, a call for
  \<open>fr-FR\<close> keeps it, although the engine offers a French voice flagged default.
\<close>

theorem voice_kept_across_locales:
  "chosenVoice (speak ''Bonjour'' ''fr-FR'' 10 (speak ''Hello'' ''en-US'' 10 twoVoices))
     = Some americanVoice
   \<and> voice_lang americanVoice \<noteq> ''fr-FR''
   \<and> frenchVoice \<in> set (engineVoices twoVoices)
   \<and> voice_lang frenchVoice = ''fr-FR'' \<and> voice_default frenchVoice"
  by (simp add: chosenVoice_def speak_def twoVoices_def initSpeechService_def selectVoice_def
      engineVoices_def synth_speak_def synth_cancel_def americanVoice_def frenchVoice_def Let_def)

text \<open>
  C10. While \<open>synth\<close> is \<open>null\<close>, \<open>speak\<close> changes nothing but the console, to which it adds
  its warning, \<open>cancelSpeech\<close> changes nothing, and \<open>isSpeaking\<close> is false.
\<close>

theorem speak_unavailable:
  "synth m = None \<Longrightarrow>
     speak text lang rate m
       = m\<lparr>warnings := warnings m @ [''Speech synthesis not initialized or supported.'']\<rparr>
     \<and> cancelSpeech m = m \<and> isSpeaking m = False"
  by (simp add: speak_def cancelSpeech_def isSpeaking_def)

theorem speak_unavailable_witness:
  "synth (initSpeechService None) = None
   \<and> synth (speak ''Hello'' ''en-US'' 10 (initSpeechService None)) = None
   \<and> cancelSpeech (initSpeechService None) = initSpeechService None
   \<and> isSpeaking (initSpeechService None) = False"
  using speak_unavailable [of "initSpeechService None" "''Hello''" "''en-US''" 10]
  by (simp add: initSpeechService_def)

end
